theory Spec2Isabelle
  imports Complex_Main
begin

section \<open>The Streamlit front end of the PDF question-answering chatbot (app.py)\<close>

text \<open>
  \<^verbatim>\<open>app.py\<close> is the user-interface layer of the chatbot. Its two working functions are
  \<^verbatim>\<open>create_sidebar\<close> (upload, size check, ingestion, local copy, download link) and
  \<^verbatim>\<open>create_chat_interface\<close> (history rendering, the guard on the document-loaded flag,
  retrieve / generate / highlight, the message history). Both are straight-line code over
  three pieces of state: \<^verbatim>\<open>st.session_state\<close>, the local file system, and whatever the
  imported tools keep behind their handles (the vector index, the language model).

  The embedding passes that state explicitly. Every Streamlit call, every call of an
  imported tool and every file write is appended, in program order, to a trace, so that
  statements about what was rendered, what was invoked and in which order are statements
  about a list.

  \<^verbatim>\<open>app.py\<close> has no \<^verbatim>\<open>try\<close> and no \<^verbatim>\<open>raise\<close>. An exception raised by a tool or by
  \<^verbatim>\<open>open\<close> therefore ends the function at that statement, with everything done before it
  kept: that is a branch of the model, which records the exception in the run.
\<close>

subsection \<open>Data\<close>

type_synonym bytes = "nat list"

text \<open>What \<^verbatim>\<open>st.file_uploader\<close> hands back: the three attributes the code reads.\<close>

record uploaded_file =
  name :: string
  size_bytes :: nat
  getvalue :: bytes

text \<open>A highlighted chunk is a dictionary read at the keys \<^verbatim>\<open>'source'\<close> and \<^verbatim>\<open>'text'\<close>.\<close>

record chunk =
  chunk_source :: string
  chunk_text :: string

text \<open>
  A conversation message is a dictionary with the keys \<^verbatim>\<open>role\<close> and \<^verbatim>\<open>content\<close> and,
  for some messages, \<^verbatim>\<open>highlighted_chunks\<close>; the optional key is an option.
\<close>

record message =
  role :: string
  content :: string
  highlighted_chunks :: "chunk list option"

text \<open>\<^verbatim>\<open>st.session_state\<close> after \<^verbatim>\<open>init_session_state\<close>: all four keys are present.\<close>

record session_state =
  messages :: "message list"
  document_loaded :: bool
  document_name :: "string option"
  session_highlighted_chunks :: "chunk list"

text \<open>An exception, by the name of its class.\<close>

datatype exn = Exn string

text \<open>
  The texts the interface shows. The literal strings of the source carry emoji and
  formatted numbers; each constructor stands for one literal or f-string of the source
  and keeps the values interpolated into it. \<open>Txt_raw\<close> is text passed through unchanged.
\<close>

datatype ui_text =
    Txt_document_upload
  | Txt_limit rat
  | Txt_size_exceeds rat rat
  | Txt_processing_document
  | Txt_processed string int
  | Txt_failed_to_process
  | Txt_loaded_and_ready string
  | Txt_ask_questions
  | Txt_upload_first
  | Txt_thinking
  | Txt_view_source_chunks
  | Txt_source_chunk nat string
  | Txt_raw string

text \<open>
  One entry of the trace. The \<open>St_\<close> constructors are the Streamlit calls, the
  \<open>Call_\<close> constructors the calls of the imported tools with their arguments and the
  value they returned, the \<open>Raise_\<close> constructors the calls that raised instead, with
  their arguments and the exception. \<open>File_write\<close> is \<^verbatim>\<open>open(name, "wb")\<close> followed by
  \<^verbatim>\<open>f.write\<close>, \<open>Raise_open\<close> the same statement when it raises.
  The type \<open>'c\<close> is whatever \<^verbatim>\<open>retrieve_relevant_chunks\<close> returns.
\<close>

datatype 'c event =
    St_header ui_text
  | St_file_uploader rat
  | St_caption ui_text
  | St_error ui_text
  | St_success ui_text
  | St_spinner ui_text
  | St_markdown ui_text
  | St_text string
  | St_chat_message string
  | St_chat_input
  | St_expander ui_text
  | Call_process_pdf_document uploaded_file bool int
  | Call_retrieve_relevant_chunks string 'c
  | Call_generate_response_func string 'c string
  | Call_highlight_matching_chunks string 'c "chunk list"
  | Call_get_pdf_download_link string string
  | File_write string bytes
  | Raise_retrieve_relevant_chunks string exn
  | Raise_generate_response_func string 'c exn
  | Raise_highlight_matching_chunks string 'c exn
  | Raise_get_pdf_download_link string exn
  | Raise_open string exn

text \<open>
  The imported tools (\<^verbatim>\<open>from tools import ...\<close>, and the \<^verbatim>\<open>generate_response_func\<close>
  argument) are not part of \<^verbatim>\<open>app.py\<close>; they are parameters of the model. The handles
  the source passes through unchanged (tokenizer, embedding model, Pinecone index, Groq
  client, model name, chunk size and overlap) are folded into these parameters. What the
  tools keep outside the process is the state \<open>'w\<close>, which every call may read and
  change, also when it raises; the download-link helper reads the local files.

  \<^verbatim>\<open>retrieve_relevant_chunks\<close>, \<^verbatim>\<open>generate_response_func\<close>, \<^verbatim>\<open>highlight_matching_chunks\<close>
  and \<^verbatim>\<open>get_pdf_download_link\<close> either return a value (\<open>Inr\<close>) or raise (\<open>Inl\<close>).
  \<^verbatim>\<open>process_pdf_document\<close> reports every failure of a stage through its result
  \<^verbatim>\<open>(success, chunk_count)\<close>, which the call site unpacks; it is a function into pairs.
\<close>

record ('c, 'w) tools =
  process_pdf_document :: "uploaded_file \<Rightarrow> 'w \<Rightarrow> (bool \<times> int) \<times> 'w"
  retrieve_relevant_chunks :: "string \<Rightarrow> 'w \<Rightarrow> (exn + 'c) \<times> 'w"
  generate_response_func :: "string \<Rightarrow> 'c \<Rightarrow> 'w \<Rightarrow> (exn + string) \<times> 'w"
  highlight_matching_chunks :: "string \<Rightarrow> 'c \<Rightarrow> 'w \<Rightarrow> (exn + chunk list) \<times> 'w"
  get_pdf_download_link :: "string \<Rightarrow> (string \<rightharpoonup> bytes) \<Rightarrow> exn + string"

text \<open>
  The state one script run works on, and the trace it leaves. \<open>writable\<close> says for which
  paths \<^verbatim>\<open>open(path, "wb")\<close> and the write after it go through (a read-only directory, or
  a directory of that name, makes them raise \<^verbatim>\<open>OSError\<close>). \<open>uncaught\<close> is the exception
  that ended the function, if one did.
\<close>

record ('c, 'w) run =
  session :: session_state
  files :: "string \<rightharpoonup> bytes"
  writable :: "string \<Rightarrow> bool"
  ext :: 'w
  trace :: "'c event list"
  uncaught :: "exn option"

definition emit :: "'c event \<Rightarrow> ('c, 'w) run \<Rightarrow> ('c, 'w) run" where
  "emit e r = r\<lparr>trace := trace r @ [e]\<rparr>"

definition emits :: "'c event list \<Rightarrow> ('c, 'w) run \<Rightarrow> ('c, 'w) run" where
  "emits es r = r\<lparr>trace := trace r @ es\<rparr>"

text \<open>An exception leaves the function: the run so far, marked with the exception.\<close>

definition raise_exn :: "exn \<Rightarrow> ('c, 'w) run \<Rightarrow> ('c, 'w) run" where
  "raise_exn e r = r\<lparr>uncaught := Some e\<rparr>"

definition new_events :: "('c, 'w) run \<Rightarrow> ('c, 'w) run \<Rightarrow> 'c event list" where
  "new_events r r' = drop (length (trace r)) (trace r')"

subsection \<open>create_sidebar\<close>

text \<open>
  \<^verbatim>\<open>file_size_mb = uploaded_file.size / (1024 * 1024)\<close> is a float division by a power
  of two, which is exact for every size below \<open>2^53\<close>; the quotient is modelled as the
  rational it is. \<^verbatim>\<open>if uploaded_file:\<close> tests for \<^verbatim>\<open>None\<close> (an uploaded file object is
  truthy whatever its length). The comparison \<^verbatim>\<open>document_name != uploaded_file.name\<close>
  holds when \<^verbatim>\<open>document_name\<close> is \<^verbatim>\<open>None\<close>. The function returns the uploaded file; a
  run that ends in an exception returns nothing, which the first component gives as
  \<open>None\<close> beside a run whose \<open>uncaught\<close> is set. On the success path the flag is set and
  the success notice rendered before the file is opened, so an \<^verbatim>\<open>open\<close> that raises leaves
  the document marked as loaded with no local copy.
\<close>

definition create_sidebar ::
  "('c, 'w) tools \<Rightarrow> rat \<Rightarrow> uploaded_file option \<Rightarrow> ('c, 'w) run
     \<Rightarrow> uploaded_file option \<times> ('c, 'w) run" where
  "create_sidebar tools file_size_limit_mb uploaded_file r0 =
    (let r1 = emit (St_header Txt_document_upload) r0;
         r2 = emit (St_file_uploader file_size_limit_mb) r1;
         r3 = emit (St_caption (Txt_limit file_size_limit_mb)) r2
     in case uploaded_file of
          None \<Rightarrow> (None, r3)
        | Some f \<Rightarrow>
            let file_size_mb = of_nat (size_bytes f) / (1024 * 1024);
                r4 = (if file_size_mb > file_size_limit_mb then
                        (emit (St_error (Txt_size_exceeds file_size_mb file_size_limit_mb)) r3)
                          \<lparr>session := (session r3)\<lparr>document_loaded := False,
                                                     document_name := None\<rparr>\<rparr>
                      else if document_name (session r3) \<noteq> Some (name f) then
                        r3\<lparr>session := (session r3)\<lparr>document_loaded := False,
                                                     document_name := Some (name f)\<rparr>\<rparr>
                      else r3)
            in if \<not> document_loaded (session r4) then
                 let r5 = emit (St_spinner Txt_processing_document) r4;
                     res = process_pdf_document tools f (ext r5);
                     success = fst (fst res);
                     chunk_count = snd (fst res);
                     r6 = emit (Call_process_pdf_document f success chunk_count)
                            (r5\<lparr>ext := snd res\<rparr>)
                 in if success then
                      let r7 = r6\<lparr>session := (session r6)\<lparr>document_loaded := True\<rparr>\<rparr>;
                          r8 = emit (St_success (Txt_processed (name f) chunk_count)) r7
                      in if \<not> writable r8 (name f) then
                           (None, raise_exn (Exn ''OSError'')
                                    (emit (Raise_open (name f) (Exn ''OSError'')) r8))
                         else
                           let r9 = emit (File_write (name f) (getvalue f))
                                      (r8\<lparr>files := (files r8)(name f \<mapsto> getvalue f)\<rparr>)
                           in case get_pdf_download_link tools (name f) (files r9) of
                                Inl e \<Rightarrow>
                                  (None, raise_exn e
                                           (emit (Raise_get_pdf_download_link (name f) e) r9))
                              | Inr link \<Rightarrow>
                                  (Some f, emit (St_markdown (Txt_raw link))
                                             (emit (Call_get_pdf_download_link (name f) link) r9))
                    else (Some f, emit (St_error Txt_failed_to_process) r6)
               else
                 let r5 = emit (St_success (Txt_loaded_and_ready (name f))) r4
                 in if name f \<in> dom (files r5) then
                      case get_pdf_download_link tools (name f) (files r5) of
                        Inl e \<Rightarrow>
                          (None, raise_exn e (emit (Raise_get_pdf_download_link (name f) e) r5))
                      | Inr link \<Rightarrow>
                          (Some f, emit (St_markdown (Txt_raw link))
                                     (emit (Call_get_pdf_download_link (name f) link) r5))
                    else (Some f, r5))"

subsection \<open>create_chat_interface\<close>

text \<open>
  \<^verbatim>\<open>for i, chunk in enumerate(chunks)\<close>: a label with \<^verbatim>\<open>i+1\<close> and the source, then the
  text, for each chunk in order.
\<close>

fun render_chunks :: "nat \<Rightarrow> chunk list \<Rightarrow> 'c event list" where
  "render_chunks i [] = []"
| "render_chunks i (c # cs) =
     St_markdown (Txt_source_chunk (i + 1) (chunk_source c)) # St_text (chunk_text c)
       # render_chunks (i + 1) cs"

text \<open>The body of the loop that displays the history, for one message.\<close>

definition render_message :: "message \<Rightarrow> 'c event list" where
  "render_message m =
     St_chat_message (role m) # St_markdown (Txt_raw (content m)) #
       (case highlighted_chunks m of
          Some hs \<Rightarrow>
            if role m = ''assistant''
            then St_expander Txt_view_source_chunks # render_chunks 0 hs
            else []
        | None \<Rightarrow> [])"

text \<open>
  \<^verbatim>\<open>if user_query := st.chat_input(...)\<close>: the input is \<^verbatim>\<open>None\<close> when nothing was
  submitted, and an empty string is falsy as well. The user's message is appended before
  the stages run and the assistant's after them, so a stage that raises leaves the
  question in the history without an answer.
\<close>

definition create_chat_interface ::
  "('c, 'w) tools \<Rightarrow> string option \<Rightarrow> ('c, 'w) run \<Rightarrow> ('c, 'w) run" where
  "create_chat_interface tools chat_input r0 =
    (let r1 = emit (St_header Txt_ask_questions) r0;
         r2 = emits (concat (map render_message (messages (session r1)))) r1;
         r3 = emit St_chat_input r2
     in case chat_input of
          None \<Rightarrow> r3
        | Some user_query \<Rightarrow>
            if user_query = [] then r3
            else if \<not> document_loaded (session r3) then
              emit (St_markdown Txt_upload_first) (emit (St_chat_message ''assistant'') r3)
            else
              let r4 = r3\<lparr>session := (session r3)\<lparr>messages := messages (session r3) @
                          [\<lparr>role = ''user'', content = user_query,
                            highlighted_chunks = None\<rparr>]\<rparr>\<rparr>;
                  r5 = emit (St_chat_message ''user'') r4;
                  r6 = emit (St_markdown (Txt_raw user_query)) r5;
                  r7 = emit (St_chat_message ''assistant'') r6;
                  r8 = emit (St_spinner Txt_thinking) r7;
                  ret = retrieve_relevant_chunks tools user_query (ext r8)
              in case fst ret of
                   Inl e \<Rightarrow>
                     raise_exn e (emit (Raise_retrieve_relevant_chunks user_query e)
                                    (r8\<lparr>ext := snd ret\<rparr>))
                 | Inr chunks \<Rightarrow>
              let r9 = emit (Call_retrieve_relevant_chunks user_query chunks)
                         (r8\<lparr>ext := snd ret\<rparr>);
                  gen = generate_response_func tools user_query chunks (ext r9)
              in case fst gen of
                   Inl e \<Rightarrow>
                     raise_exn e (emit (Raise_generate_response_func user_query chunks e)
                                    (r9\<lparr>ext := snd gen\<rparr>))
                 | Inr response \<Rightarrow>
              let r10 = emit (Call_generate_response_func user_query chunks response)
                          (r9\<lparr>ext := snd gen\<rparr>);
                  r11 = emit (St_markdown (Txt_raw response)) r10;
                  hl = highlight_matching_chunks tools response chunks (ext r11)
              in case fst hl of
                   Inl e \<Rightarrow>
                     raise_exn e (emit (Raise_highlight_matching_chunks response chunks e)
                                    (r11\<lparr>ext := snd hl\<rparr>))
                 | Inr highlighted \<Rightarrow>
              let r12 = emit (Call_highlight_matching_chunks response chunks highlighted)
                          (r11\<lparr>ext := snd hl\<rparr>);
                  r13 = (if highlighted \<noteq> [] then
                           emits (St_expander Txt_view_source_chunks
                                    # render_chunks 0 highlighted) r12
                         else r12)
              in r13\<lparr>session := (session r13)\<lparr>messages := messages (session r13) @
                     [\<lparr>role = ''assistant'', content = response,
                       highlighted_chunks = Some highlighted\<rparr>]\<rparr>\<rparr>)"

text \<open>
  The trace entries that are calls of the question-answering stages, whether the call
  returned or raised.
\<close>

fun is_stage_call :: "'c event \<Rightarrow> bool" where
  "is_stage_call (Call_retrieve_relevant_chunks _ _) = True"
| "is_stage_call (Call_generate_response_func _ _ _) = True"
| "is_stage_call (Call_highlight_matching_chunks _ _ _) = True"
| "is_stage_call (Raise_retrieve_relevant_chunks _ _) = True"
| "is_stage_call (Raise_generate_response_func _ _ _) = True"
| "is_stage_call (Raise_highlight_matching_chunks _ _ _) = True"
| "is_stage_call _ = False"

text \<open>The trace entries that are calls of the ingestion pipeline.\<close>

fun is_ingestion_call :: "'c event \<Rightarrow> bool" where
  "is_ingestion_call (Call_process_pdf_document _ _ _) = True"
| "is_ingestion_call _ = False"

text \<open>The size error of \<^verbatim>\<open>create_sidebar\<close>, and the file writes.\<close>

fun is_size_error :: "'c event \<Rightarrow> bool" where
  "is_size_error (St_error (Txt_size_exceeds _ _)) = True"
| "is_size_error _ = False"

fun is_file_write :: "'c event \<Rightarrow> bool" where
  "is_file_write (File_write _ _) = True"
| "is_file_write _ = False"

text \<open>
  The trace entries of \<^verbatim>\<open>st.markdown(get_pdf_download_link(name), ...)\<close>: the call of the
  helper, returning or raising, and the markdown of what it returned (the only raw
  markdown the sidebar renders).
\<close>

fun is_link_event :: "'c event \<Rightarrow> bool" where
  "is_link_event (Call_get_pdf_download_link _ _) = True"
| "is_link_event (Raise_get_pdf_download_link _ _) = True"
| "is_link_event (St_markdown (Txt_raw _)) = True"
| "is_link_event _ = False"

text \<open>
  What the statement \<^verbatim>\<open>st.markdown(get_pdf_download_link(name), unsafe_allow_html=True)\<close>
  (lines 58 and 65) leaves in the trace when it runs on the local files \<open>fs\<close>: the call
  and the markdown of its result, or the call that raised.
\<close>

definition link_events ::
  "('c, 'w) tools \<Rightarrow> string \<Rightarrow> (string \<rightharpoonup> bytes) \<Rightarrow> 'c event list" where
  "link_events tools nm fs =
     (case get_pdf_download_link tools nm fs of
        Inr link \<Rightarrow> [Call_get_pdf_download_link nm link, St_markdown (Txt_raw link)]
      | Inl e \<Rightarrow> [Raise_get_pdf_download_link nm e])"

subsection \<open>A concrete instance\<close>

text \<open>
  Tools and inputs on which the two functions can be run. The index is a list of
  (document name, content) pairs. Ingestion fails on empty content and otherwise stores
  the content under the document's name, replacing what was stored under that name;
  retrieval returns one chunk per stored document. Every tool of \<open>demo_tools\<close> returns.
\<close>

definition demo_tools :: "(chunk list, (string \<times> bytes) list) tools" where
  "demo_tools =
     \<lparr>process_pdf_document = (\<lambda>f w.
         if getvalue f = [] then ((False, 0), w)
         else ((True, 1), (name f, getvalue f) # filter (\<lambda>p. fst p \<noteq> name f) w)),
      retrieve_relevant_chunks = (\<lambda>q w.
         (Inr (map (\<lambda>p. \<lparr>chunk_source = fst p, chunk_text = q\<rparr>) w), w)),
      generate_response_func = (\<lambda>q cs w. (Inr (''answer to '' @ q), w)),
      highlight_matching_chunks = (\<lambda>a cs w. (Inr cs, w)),
      get_pdf_download_link = (\<lambda>n fs. Inr (''download:'' @ n))\<rparr>"

text \<open>The same tools with a language model that cannot be reached: the generator raises.\<close>

definition offline_tools :: "(chunk list, (string \<times> bytes) list) tools" where
  "offline_tools =
     demo_tools\<lparr>generate_response_func :=
                  (\<lambda>q cs w. (Inl (Exn ''GenerationError''), w))\<rparr>"

text \<open>A session right after \<^verbatim>\<open>init_session_state\<close>, with nothing on disk or in the index.\<close>

definition fresh_run :: "(chunk list, (string \<times> bytes) list) run" where
  "fresh_run =
     \<lparr>session = \<lparr>messages = [], document_loaded = False, document_name = None,
                 session_highlighted_chunks = []\<rparr>,
      files = Map.empty, writable = (\<lambda>p. True), ext = [], trace = [], uncaught = None\<rparr>"


definition empty_pdf :: uploaded_file where
  "empty_pdf = \<lparr>name = ''empty.pdf'', size_bytes = 0, getvalue = []\<rparr>"

definition report_pdf :: uploaded_file where
  "report_pdf = \<lparr>name = ''report.pdf'', size_bytes = 3, getvalue = [37, 80, 68]\<rparr>"

text \<open>A second version of the same document: same name, other content.\<close>

definition report_pdf_v2 :: uploaded_file where
  "report_pdf_v2 = \<lparr>name = ''report.pdf'', size_bytes = 4, getvalue = [37, 80, 68, 70]\<rparr>"

text \<open>Exactly 2 MB (\<open>2 * 1024 * 1024\<close> bytes), and exactly 3 MB.\<close>

definition limit_pdf :: uploaded_file where
  "limit_pdf =
     \<lparr>name = ''report.pdf'', size_bytes = 2097152, getvalue = replicate 2097152 0\<rparr>"

definition big_pdf :: uploaded_file where
  "big_pdf = \<lparr>name = ''big.pdf'', size_bytes = 3145728, getvalue = replicate 3145728 0\<rparr>"

text \<open>The session after \<open>report_pdf\<close> has been ingested (see \<open>loaded_run_reached\<close>).\<close>

definition loaded_run :: "(chunk list, (string \<times> bytes) list) run" where
  "loaded_run =
     \<lparr>session = \<lparr>messages = [], document_loaded = True,
                 document_name = Some ''report.pdf'', session_highlighted_chunks = []\<rparr>,
      files = [''report.pdf'' \<mapsto> [37, 80, 68]], writable = (\<lambda>p. True),
      ext = [(''report.pdf'', [37, 80, 68])], trace = [], uncaught = None\<rparr>"

section \<open>Basic facts\<close>

lemma emit_sel [simp]:
  "trace (emit e r) = trace r @ [e]" "session (emit e r) = session r"
  "files (emit e r) = files r" "ext (emit e r) = ext r"
  "writable (emit e r) = writable r" "uncaught (emit e r) = uncaught r"
  by (simp_all add: emit_def)

lemma emits_sel [simp]:
  "trace (emits es r) = trace r @ es" "session (emits es r) = session r"
  "files (emits es r) = files r" "ext (emits es r) = ext r"
  "writable (emits es r) = writable r" "uncaught (emits es r) = uncaught r"
  by (simp_all add: emits_def)

lemma raise_exn_sel [simp]:
  "trace (raise_exn e r) = trace r" "session (raise_exn e r) = session r"
  "files (raise_exn e r) = files r" "ext (raise_exn e r) = ext r"
  "writable (raise_exn e r) = writable r" "uncaught (raise_exn e r) = Some e"
  by (simp_all add: raise_exn_def)

lemmas sidebar_unfold = create_sidebar_def Let_def new_events_def

lemmas chat_unfold = create_chat_interface_def Let_def new_events_def

text \<open>Rendering the history calls no stage of the pipeline.\<close>

lemma render_chunks_no_stage_call [simp]:
  "filter is_stage_call (render_chunks i cs) = []"
  by (induction cs arbitrary: i) simp_all

lemma render_message_no_stage_call [simp]:
  "filter is_stage_call (render_message m) = []"
  by (simp add: render_message_def split: option.split)

lemma history_no_stage_call [simp]:
  "filter is_stage_call (concat (map render_message ms)) = []"
  by (induction ms) simp_all

text \<open>\<open>loaded_run\<close> is what a fresh session becomes when \<open>report_pdf\<close> is uploaded.\<close>

lemma loaded_run_reached:
  "snd (create_sidebar demo_tools 2 (Some report_pdf) fresh_run)\<lparr>trace := []\<rparr> = loaded_run"
  by (simp add: sidebar_unfold demo_tools_def fresh_run_def loaded_run_def report_pdf_def)

text \<open>\<open>create_chat_interface\<close> touches neither the flag, the name nor the files.\<close>

lemma chat_keeps_document:
  "document_loaded (session (create_chat_interface tools chat_input r))
     = document_loaded (session r)
   \<and> document_name (session (create_chat_interface tools chat_input r))
     = document_name (session r)
   \<and> files (create_chat_interface tools chat_input r) = files r"
  by (simp add: chat_unfold split: option.split sum.split)

text \<open>
  The branches of \<open>create_sidebar\<close>: no upload; an upload within the limit whose name is
  that of the loaded document; and every other upload, which is ingested.
\<close>

lemma sidebar_no_upload:
  "create_sidebar tools file_size_limit_mb None r
     = (None, emit (St_caption (Txt_limit file_size_limit_mb))
                (emit (St_file_uploader file_size_limit_mb)
                   (emit (St_header Txt_document_upload) r)))"
  by (simp add: create_sidebar_def Let_def)

lemma sidebar_already_loaded:
  assumes "\<not> file_size_limit_mb < of_nat (size_bytes f) / (1024 * 1024)"
    and "document_name (session r) = Some (name f)"
    and "document_loaded (session r)"
  shows "new_events r (snd (create_sidebar tools file_size_limit_mb (Some f) r))
           = [St_header Txt_document_upload, St_file_uploader file_size_limit_mb,
              St_caption (Txt_limit file_size_limit_mb),
              St_success (Txt_loaded_and_ready (name f))]
             @ (if name f \<in> dom (files r) then link_events tools (name f) (files r) else [])
         \<and> session (snd (create_sidebar tools file_size_limit_mb (Some f) r)) = session r
         \<and> files (snd (create_sidebar tools file_size_limit_mb (Some f) r)) = files r
         \<and> ext (snd (create_sidebar tools file_size_limit_mb (Some f) r)) = ext r"
  using assms by (simp add: sidebar_unfold link_events_def split: sum.split)

lemma sidebar_ingests:
  assumes "file_size_limit_mb < of_nat (size_bytes f) / (1024 * 1024)
           \<or> document_name (session r) \<noteq> Some (name f)
           \<or> \<not> document_loaded (session r)"
  shows "new_events r (snd (create_sidebar tools file_size_limit_mb (Some f) r))
           = [St_header Txt_document_upload, St_file_uploader file_size_limit_mb,
              St_caption (Txt_limit file_size_limit_mb)]
             @ (if file_size_limit_mb < of_nat (size_bytes f) / (1024 * 1024)
                then [St_error (Txt_size_exceeds (of_nat (size_bytes f) / (1024 * 1024))
                                  file_size_limit_mb)]
                else [])
             @ [St_spinner Txt_processing_document,
                Call_process_pdf_document f
                  (fst (fst (process_pdf_document tools f (ext r))))
                  (snd (fst (process_pdf_document tools f (ext r))))]
             @ (if fst (fst (process_pdf_document tools f (ext r))) then
                  St_success (Txt_processed (name f)
                                (snd (fst (process_pdf_document tools f (ext r)))))
                  # (if writable r (name f) then
                       File_write (name f) (getvalue f)
                       # link_events tools (name f) ((files r)(name f \<mapsto> getvalue f))
                     else [Raise_open (name f) (Exn ''OSError'')])
                else [St_error Txt_failed_to_process])
         \<and> files (snd (create_sidebar tools file_size_limit_mb (Some f) r))
             = (if fst (fst (process_pdf_document tools f (ext r))) \<and> writable r (name f)
                then (files r)(name f \<mapsto> getvalue f) else files r)
         \<and> document_loaded (session (snd (create_sidebar tools file_size_limit_mb (Some f) r)))
             = fst (fst (process_pdf_document tools f (ext r)))
         \<and> document_name (session (snd (create_sidebar tools file_size_limit_mb (Some f) r)))
             = (if file_size_limit_mb < of_nat (size_bytes f) / (1024 * 1024)
                then None else Some (name f))
         \<and> ext (snd (create_sidebar tools file_size_limit_mb (Some f) r))
             = snd (process_pdf_document tools f (ext r))
         \<and> (fst (fst (process_pdf_document tools f (ext r))) \<and> \<not> writable r (name f)
              \<longrightarrow> uncaught (snd (create_sidebar tools file_size_limit_mb (Some f) r))
                    = Some (Exn ''OSError''))"
proof (cases "file_size_limit_mb < of_nat (size_bytes f) / (1024 * 1024)")
  case True
  then show ?thesis
    by (simp add: sidebar_unfold link_events_def split: sum.split)
next
  case False
  with assms have "document_name (session r) \<noteq> Some (name f) \<or> \<not> document_loaded (session r)"
    by simp
  with False show ?thesis
    by (simp add: sidebar_unfold link_events_def split: sum.split)
qed


text \<open>The link entries are neither ingestion calls, file writes nor notices.\<close>

lemma link_events_filters [simp]:
  "filter is_ingestion_call (link_events tools nm fs) = []"
  "filter is_file_write (link_events tools nm fs) = []"
  "filter is_size_error (link_events tools nm fs) = []"
  "filter is_link_event (link_events tools nm fs) = link_events tools nm fs"
  "filter (\<lambda>e. is_ingestion_call e \<or> is_file_write e \<or> is_link_event e)
     (link_events tools nm fs) = link_events tools nm fs"
  "filter (\<lambda>e. is_size_error e \<or> is_ingestion_call e) (link_events tools nm fs) = []"
  "Call_process_pdf_document u b n \<notin> set (link_events tools nm fs)"
  "St_success t \<notin> set (link_events tools nm fs)"
  by (simp_all add: link_events_def split: sum.split)

text \<open>The branches of \<open>create_chat_interface\<close> that call no tool.\<close>

lemma chat_without_question:
  "chat_input = None \<or> chat_input = Some [] \<Longrightarrow>
   create_chat_interface tools chat_input r
     = emit St_chat_input
         (emits (concat (map render_message (messages (session r))))
            (emit (St_header Txt_ask_questions) r))"
  by (auto simp: create_chat_interface_def Let_def)

lemma chat_unloaded:
  "user_query \<noteq> [] \<Longrightarrow> \<not> document_loaded (session r) \<Longrightarrow>
   create_chat_interface tools (Some user_query) r
     = emit (St_markdown Txt_upload_first)
         (emit (St_chat_message ''assistant'')
            (emit St_chat_input
               (emits (concat (map render_message (messages (session r))))
                  (emit (St_header Txt_ask_questions) r))))"
  by (simp add: create_chat_interface_def Let_def)

section \<open>Upload and ingestion (create_sidebar)\<close>

text \<open>
  C1. Whenever a run of \<open>create_sidebar\<close> calls \<open>process_pdf_document\<close> and the call
  returns \<open>success = False\<close>, the run ends with \<open>document_loaded = False\<close>. This holds
  for every uploaded file, every session state and every size limit; a zero-byte file
  whose ingestion fails is one instance.
\<close>

theorem failed_ingestion_leaves_document_unloaded:
  assumes "Call_process_pdf_document f False n
             \<in> set (new_events r (snd (create_sidebar tools file_size_limit_mb uploaded_file r)))"
  shows "\<not> document_loaded
             (session (snd (create_sidebar tools file_size_limit_mb uploaded_file r)))"
proof (cases uploaded_file)
  case None
  with assms show ?thesis
    by (simp add: sidebar_no_upload new_events_def)
next
  case (Some u)
  show ?thesis
  proof (cases "file_size_limit_mb < of_nat (size_bytes u) / (1024 * 1024)
                \<or> document_name (session r) \<noteq> Some (name u)
                \<or> \<not> document_loaded (session r)")
    case True
    from sidebar_ingests [OF True, of tools] assms Some show ?thesis
      by (auto split: if_splits)
  next
    case False
    then have "\<not> file_size_limit_mb < of_nat (size_bytes u) / (1024 * 1024)"
      and "document_name (session r) = Some (name u)" and "document_loaded (session r)"
      by simp_all
    from sidebar_already_loaded [OF this, of tools] assms Some show ?thesis
      by (auto split: if_splits)
  qed
qed

text \<open>The zero-byte file in a fresh session: ingestion is called, fails, and the flag is off.\<close>

theorem failed_ingestion_leaves_document_unloaded_witness:
  "Call_process_pdf_document empty_pdf False 0
     \<in> set (new_events fresh_run (snd (create_sidebar demo_tools 2 (Some empty_pdf) fresh_run)))
   \<and> \<not> document_loaded (session (snd (create_sidebar demo_tools 2 (Some empty_pdf) fresh_run)))"
proof -
  have h: "Call_process_pdf_document empty_pdf False 0
     \<in> set (new_events fresh_run (snd (create_sidebar demo_tools 2 (Some empty_pdf) fresh_run)))"
    by (simp add: sidebar_unfold demo_tools_def fresh_run_def empty_pdf_def)
  from failed_ingestion_leaves_document_unloaded [OF h] h show ?thesis by simp
qed

text \<open>
  C2, as the code has it. The claim says that uploading a file named N again, while N is
  loaded, re-invokes the ingestion pipeline. The guard
  \<^verbatim>\<open>elif st.session_state.document_name != uploaded_file.name\<close> and the branch
  \<^verbatim>\<open>else: st.success("... is loaded and ready for questions!")\<close> do the opposite on
  purpose (Streamlit re-runs the script, with the file still in the uploader, on every
  interaction). For an upload within the size limit:
  \<^item> if a document of the same name is loaded, \<open>process_pdf_document\<close> is not called and
    the session state, the state behind the tools and the local files are unchanged. What
    the run renders is exactly the header, the uploader and the caption of every run, then
    the "loaded and ready" notice and, when the local file exists, the download link (the
    call of \<open>get_pdf_download_link\<close> and the markdown of its result, or the call alone when
    it raises);
  \<^item> otherwise \<open>process_pdf_document\<close> is called exactly once, on the uploaded file.
\<close>

theorem same_name_upload_is_not_reingested:
  assumes "of_nat (size_bytes f) / (1024 * 1024) \<le> file_size_limit_mb"
  shows "let r' = snd (create_sidebar tools file_size_limit_mb (Some f) r);
             ev = new_events r r';
             res = process_pdf_document tools f (ext r)
         in (document_loaded (session r) \<and> document_name (session r) = Some (name f) \<longrightarrow>
               ev = [St_header Txt_document_upload, St_file_uploader file_size_limit_mb,
                     St_caption (Txt_limit file_size_limit_mb),
                     St_success (Txt_loaded_and_ready (name f))]
                    @ (if name f \<in> dom (files r) then
                         (case get_pdf_download_link tools (name f) (files r) of
                            Inr link \<Rightarrow> [Call_get_pdf_download_link (name f) link,
                                         St_markdown (Txt_raw link)]
                          | Inl e \<Rightarrow> [Raise_get_pdf_download_link (name f) e])
                       else [])
               \<and> filter is_ingestion_call ev = [] \<and> ext r' = ext r \<and> session r' = session r
               \<and> files r' = files r
               \<and> St_success (Txt_loaded_and_ready (name f)) \<in> set ev)
          \<and> (\<not> (document_loaded (session r) \<and> document_name (session r) = Some (name f)) \<longrightarrow>
               filter is_ingestion_call ev
                 = [Call_process_pdf_document f (fst (fst res)) (snd (fst res))])"
proof (cases "document_loaded (session r) \<and> document_name (session r) = Some (name f)")
  case True
  from assms have "\<not> file_size_limit_mb < of_nat (size_bytes f) / (1024 * 1024)"
    by simp
  from sidebar_already_loaded [OF this, of r tools] True show ?thesis
    by (simp add: Let_def link_events_def split: sum.split)
next
  case False
  then have "file_size_limit_mb < of_nat (size_bytes f) / (1024 * 1024)
             \<or> document_name (session r) \<noteq> Some (name f)
             \<or> \<not> document_loaded (session r)"
    by blast
  from sidebar_ingests [OF this, of tools] False assms show ?thesis
    by (simp add: Let_def)
qed

text \<open>
  The second version of \<open>report.pdf\<close>, uploaded while the first is loaded: the session is
  left as it was, and the run renders the notice and the link to the copy on disk, which
  is the first version's.
\<close>

theorem same_name_upload_is_not_reingested_witness:
  "of_nat (size_bytes report_pdf_v2) / (1024 * 1024) \<le> (2::rat)
   \<and> session (snd (create_sidebar demo_tools 2 (Some report_pdf_v2) loaded_run))
       = session loaded_run
   \<and> new_events loaded_run (snd (create_sidebar demo_tools 2 (Some report_pdf_v2) loaded_run))
       = [St_header Txt_document_upload, St_file_uploader 2, St_caption (Txt_limit 2),
          St_success (Txt_loaded_and_ready ''report.pdf''),
          Call_get_pdf_download_link ''report.pdf'' ''download:report.pdf'',
          St_markdown (Txt_raw ''download:report.pdf'')]
   \<and> files (snd (create_sidebar demo_tools 2 (Some report_pdf_v2) loaded_run)) ''report.pdf''
       = Some (getvalue report_pdf)"
proof -
  have h: "of_nat (size_bytes report_pdf_v2) / (1024 * 1024) \<le> (2::rat)"
    by (simp add: report_pdf_v2_def)
  have l: "document_loaded (session loaded_run)
           \<and> document_name (session loaded_run) = Some (name report_pdf_v2)"
    by (simp add: loaded_run_def report_pdf_v2_def)
  from same_name_upload_is_not_reingested [OF h, of demo_tools loaded_run] l h
  show ?thesis
    by (simp add: Let_def report_pdf_v2_def report_pdf_def loaded_run_def demo_tools_def)
qed

text \<open>
  C2 as stated fails: \<open>report.pdf\<close> is loaded, a file of the same name and other content
  is uploaded, and the run calls no ingestion; the index still holds the first version.
\<close>

theorem reupload_same_name_skips_ingestion:
  "getvalue report_pdf_v2 \<noteq> getvalue report_pdf
   \<and> document_loaded (session loaded_run)
   \<and> document_name (session loaded_run) = Some (name report_pdf_v2)
   \<and> filter is_ingestion_call
        (new_events loaded_run (snd (create_sidebar demo_tools 2 (Some report_pdf_v2) loaded_run)))
      = []
   \<and> ext (snd (create_sidebar demo_tools 2 (Some report_pdf_v2) loaded_run))
      = [(''report.pdf'', getvalue report_pdf)]"
  by (simp add: sidebar_unfold demo_tools_def loaded_run_def report_pdf_def report_pdf_v2_def)

text \<open>
  What an upload above the limit does, for every file, session and limit: the size error
  is rendered, the flag and the name are reset, and then, the flag being off,
  \<open>process_pdf_document\<close> is called on the oversized file; the run ends with the name
  \<^verbatim>\<open>None\<close> and the flag equal to the success of that call.
\<close>

lemma oversize_upload_trace:
  assumes "of_nat (size_bytes f) / (1024 * 1024) > file_size_limit_mb"
  shows "let r' = snd (create_sidebar tools file_size_limit_mb (Some f) r);
             ev = new_events r r';
             res = process_pdf_document tools f (ext r)
         in filter (\<lambda>e. is_size_error e \<or> is_ingestion_call e) ev
              = [St_error (Txt_size_exceeds (of_nat (size_bytes f) / (1024 * 1024))
                             file_size_limit_mb),
                 Call_process_pdf_document f (fst (fst res)) (snd (fst res))]
          \<and> document_loaded (session r') = fst (fst res)
          \<and> document_name (session r') = None"
proof -
  from assms have "file_size_limit_mb < of_nat (size_bytes f) / (1024 * 1024)
             \<or> document_name (session r) \<noteq> Some (name f)
             \<or> \<not> document_loaded (session r)"
    by simp
  from sidebar_ingests [OF this, of tools] assms show ?thesis
    by (simp add: Let_def)
qed

text \<open>
  C4. The claim is that a file above the limit gets the size error and is never passed to
  \<open>process_pdf_document\<close>. The code renders the error and then ingests the file all the
  same: a 3 MB file against a limit of 2 MB, in a fresh session.
\<close>

theorem oversize_upload_is_still_ingested:
  "filter (\<lambda>e. is_size_error e \<or> is_ingestion_call e)
     (new_events fresh_run (snd (create_sidebar demo_tools 2 (Some big_pdf) fresh_run)))
   = [St_error (Txt_size_exceeds 3 2), Call_process_pdf_document big_pdf True 1]"
  by (simp add: sidebar_unfold demo_tools_def fresh_run_def big_pdf_def)

text \<open>
  C8. The claim is that after an upload above the limit the session is unloaded
  (\<open>document_loaded = False\<close>, \<open>document_name = None\<close>). The code resets both and then
  ingests the oversized file; when that succeeds the run ends with the flag on again:
  \<open>report.pdf\<close> loaded, a 3 MB \<open>big.pdf\<close> uploaded against a limit of 2 MB.
\<close>

theorem oversize_upload_can_end_loaded:
  "document_loaded (session (snd (create_sidebar demo_tools 2 (Some big_pdf) loaded_run)))
   \<and> document_name (session (snd (create_sidebar demo_tools 2 (Some big_pdf) loaded_run)))
      = None"
  by (simp add: sidebar_unfold demo_tools_def loaded_run_def big_pdf_def)




text \<open>
  C9, as the code has it. The check is \<^verbatim>\<open>file_size_mb > file_size_limit_mb\<close>, so a file
  whose size in megabytes equals the limit gets no size error and keeps its name in the
  session. It is passed to \<open>process_pdf_document\<close>, once, unless a document of the same
  name is already loaded; in that case, as for any upload within the limit, ingestion is
  skipped.
\<close>

theorem upload_at_limit_is_accepted:
  assumes "of_nat (size_bytes f) / (1024 * 1024) = file_size_limit_mb"
  shows "let r' = snd (create_sidebar tools file_size_limit_mb (Some f) r);
             ev = new_events r r';
             res = process_pdf_document tools f (ext r)
         in filter is_size_error ev = []
          \<and> document_name (session r') = Some (name f)
          \<and> filter is_ingestion_call ev
              = (if document_loaded (session r) \<and> document_name (session r) = Some (name f)
                 then []
                 else [Call_process_pdf_document f (fst (fst res)) (snd (fst res))])"
proof (cases "document_loaded (session r) \<and> document_name (session r) = Some (name f)")
  case True
  from assms have "\<not> file_size_limit_mb < of_nat (size_bytes f) / (1024 * 1024)"
    by simp
  from sidebar_already_loaded [OF this, of r tools] True show ?thesis
    by (simp add: Let_def)
next
  case False
  then have "file_size_limit_mb < of_nat (size_bytes f) / (1024 * 1024)
             \<or> document_name (session r) \<noteq> Some (name f)
             \<or> \<not> document_loaded (session r)"
    by blast
  from sidebar_ingests [OF this, of tools] False assms show ?thesis
    by (simp add: Let_def)
qed

text \<open>A file of exactly 2 MB against a limit of 2 MB, in a fresh session: it is ingested.\<close>

theorem upload_at_limit_is_accepted_witness:
  "of_nat (size_bytes limit_pdf) / (1024 * 1024) = (2::rat)
   \<and> filter is_size_error
        (new_events fresh_run (snd (create_sidebar demo_tools 2 (Some limit_pdf) fresh_run)))
      = []
   \<and> filter is_ingestion_call
        (new_events fresh_run (snd (create_sidebar demo_tools 2 (Some limit_pdf) fresh_run)))
      = [Call_process_pdf_document limit_pdf True 1]"
proof -
  have h: "of_nat (size_bytes limit_pdf) / (1024 * 1024) = (2::rat)"
    by (simp add: limit_pdf_def)
  from upload_at_limit_is_accepted [OF h, of demo_tools fresh_run] h show ?thesis
    by (simp add: Let_def demo_tools_def fresh_run_def limit_pdf_def)
qed

text \<open>
  C9 as stated fails: the same 2 MB file, named like the document that is already
  loaded, is at the limit and is not passed to ingestion.
\<close>

theorem upload_at_limit_already_loaded_skips_ingestion:
  "of_nat (size_bytes limit_pdf) / (1024 * 1024) = (2::rat)
   \<and> filter is_size_error
        (new_events loaded_run (snd (create_sidebar demo_tools 2 (Some limit_pdf) loaded_run)))
      = []
   \<and> filter is_ingestion_call
        (new_events loaded_run (snd (create_sidebar demo_tools 2 (Some limit_pdf) loaded_run)))
      = []"
  by (simp add: sidebar_unfold demo_tools_def loaded_run_def limit_pdf_def)

section \<open>Questions and answers (create_chat_interface)\<close>

text \<open>
  C3. When a question is submitted while \<open>document_loaded\<close> is \<open>False\<close>, the run renders
  the "upload a document first" message and calls none of \<open>retrieve_relevant_chunks\<close>,
  the answer generator and \<open>highlight_matching_chunks\<close>. Conversely, whatever the input,
  a run that calls any of these stages started with \<open>document_loaded = True\<close>.
\<close>

theorem unloaded_question_gets_warning_only:
  "(user_query \<noteq> [] \<longrightarrow> \<not> document_loaded (session r) \<longrightarrow>
      St_markdown Txt_upload_first
        \<in> set (new_events r (create_chat_interface tools (Some user_query) r))
      \<and> filter is_stage_call
          (new_events r (create_chat_interface tools (Some user_query) r)) = [])
   \<and> (filter is_stage_call (new_events r (create_chat_interface tools chat_input r)) \<noteq> []
        \<longrightarrow> document_loaded (session r))"
proof (cases "document_loaded (session r)")
  case True
  then show ?thesis by simp
next
  case False
  have "filter is_stage_call (new_events r (create_chat_interface tools chat_input r)) = []"
  proof (cases "chat_input = None \<or> chat_input = Some []")
    case True
    then show ?thesis by (simp add: chat_without_question new_events_def)
  next
    case no: False
    then obtain q where "chat_input = Some q" and "q \<noteq> []" by auto
    with False show ?thesis by (simp add: chat_unloaded new_events_def)
  qed
  with False show ?thesis by (simp add: chat_unloaded new_events_def)
qed

text \<open>
  A question in a fresh session gets the warning and no stage call; a question in the
  loaded session does call the stages, and that session has the flag on.
\<close>

theorem unloaded_question_gets_warning_only_witness:
  "St_markdown Txt_upload_first
     \<in> set (new_events fresh_run (create_chat_interface demo_tools (Some ''why?'') fresh_run))
   \<and> filter is_stage_call
        (new_events fresh_run (create_chat_interface demo_tools (Some ''why?'') fresh_run)) = []
   \<and> filter is_stage_call
        (new_events loaded_run (create_chat_interface demo_tools (Some ''why?'') loaded_run))
      \<noteq> []
   \<and> document_loaded (session loaded_run)"
proof -
  have q: "''why?'' \<noteq> []" by simp
  have u: "\<not> document_loaded (session fresh_run)" by (simp add: fresh_run_def)
  have c: "filter is_stage_call
        (new_events loaded_run (create_chat_interface demo_tools (Some ''why?'') loaded_run))
      \<noteq> []"
    by (simp add: chat_unfold demo_tools_def loaded_run_def)
  from unloaded_question_gets_warning_only
         [of "''why?''" fresh_run demo_tools "Some ''why?''"] q u
  have a: "St_markdown Txt_upload_first
       \<in> set (new_events fresh_run (create_chat_interface demo_tools (Some ''why?'') fresh_run))
     \<and> filter is_stage_call
        (new_events fresh_run (create_chat_interface demo_tools (Some ''why?'') fresh_run)) = []"
    by blast
  from unloaded_question_gets_warning_only
         [of "''why?''" loaded_run demo_tools "Some ''why?''"] c
  have b: "document_loaded (session loaded_run)" by blast
  from a b c show ?thesis by blast
qed

text \<open>
  C5, as the code has it. The claim says that every question submitted while a document
  is loaded runs retrieve, generate and highlight, each exactly once. The stages are
  called with no handler around them, so a stage that raises ends the turn there. For
  every question submitted while a document is loaded, and all tools:
  \<^item> the stage calls of the run are, in this order and each at most once,
    \<open>retrieve_relevant_chunks\<close> on the query, \<open>generate_response_func\<close> on the query and
    the chunks retrieved, \<open>highlight_matching_chunks\<close> on the response generated and the
    same chunks, each on the external state the one before it left;
  \<^item> when all three return, each is called exactly once and the run appends the user
    message and then the assistant message;
  \<^item> when one raises, the stages after it are not called, the run ends with that
    exception, and the history has gained the user message only.
\<close>

theorem stages_run_in_order_until_one_raises:
  assumes "user_query \<noteq> []" and "document_loaded (session r)"
  shows "let r' = create_chat_interface tools (Some user_query) r;
             calls = filter is_stage_call (new_events r r');
             asked = messages (session r)
                       @ [\<lparr>role = ''user'', content = user_query,
                           highlighted_chunks = None\<rparr>];
             ret = retrieve_relevant_chunks tools user_query (ext r)
         in case fst ret of
              Inl e \<Rightarrow>
                calls = [Raise_retrieve_relevant_chunks user_query e]
                \<and> messages (session r') = asked \<and> uncaught r' = Some e
            | Inr chunks \<Rightarrow>
                (let gen = generate_response_func tools user_query chunks (snd ret)
                 in case fst gen of
                      Inl e \<Rightarrow>
                        calls = [Call_retrieve_relevant_chunks user_query chunks,
                                 Raise_generate_response_func user_query chunks e]
                        \<and> messages (session r') = asked \<and> uncaught r' = Some e
                    | Inr response \<Rightarrow>
                        (let hl = highlight_matching_chunks tools response chunks (snd gen)
                         in case fst hl of
                              Inl e \<Rightarrow>
                                calls = [Call_retrieve_relevant_chunks user_query chunks,
                                         Call_generate_response_func user_query chunks response,
                                         Raise_highlight_matching_chunks response chunks e]
                                \<and> messages (session r') = asked \<and> uncaught r' = Some e
                            | Inr highlighted \<Rightarrow>
                                calls = [Call_retrieve_relevant_chunks user_query chunks,
                                         Call_generate_response_func user_query chunks response,
                                         Call_highlight_matching_chunks response chunks
                                           highlighted]
                                \<and> messages (session r')
                                    = asked @ [\<lparr>role = ''assistant'', content = response,
                                                highlighted_chunks = Some highlighted\<rparr>]
                                \<and> uncaught r' = uncaught r
                                \<and> ext r' = snd hl))"
  using assms by (simp add: chat_unfold split: sum.split)

text \<open>A question about the loaded \<open>report.pdf\<close>, with tools that all return.\<close>

theorem stages_run_in_order_until_one_raises_witness:
  "filter is_stage_call
     (new_events loaded_run (create_chat_interface demo_tools (Some ''why?'') loaded_run))
   = [Call_retrieve_relevant_chunks ''why?''
        [\<lparr>chunk_source = ''report.pdf'', chunk_text = ''why?''\<rparr>],
      Call_generate_response_func ''why?''
        [\<lparr>chunk_source = ''report.pdf'', chunk_text = ''why?''\<rparr>] ''answer to why?'',
      Call_highlight_matching_chunks ''answer to why?''
        [\<lparr>chunk_source = ''report.pdf'', chunk_text = ''why?''\<rparr>]
        [\<lparr>chunk_source = ''report.pdf'', chunk_text = ''why?''\<rparr>]]
   \<and> messages (session (create_chat_interface demo_tools (Some ''why?'') loaded_run))
     = [\<lparr>role = ''user'', content = ''why?'', highlighted_chunks = None\<rparr>,
        \<lparr>role = ''assistant'', content = ''answer to why?'',
          highlighted_chunks =
            Some [\<lparr>chunk_source = ''report.pdf'', chunk_text = ''why?''\<rparr>]\<rparr>]"
proof -
  have q: "''why?'' \<noteq> []" by simp
  have l: "document_loaded (session loaded_run)" by (simp add: loaded_run_def)
  from stages_run_in_order_until_one_raises [OF q l, of demo_tools] show ?thesis
    by (simp add: Let_def demo_tools_def loaded_run_def)
qed

text \<open>
  C5 as stated fails: \<open>report.pdf\<close> is loaded and a question is submitted, the language
  model cannot be reached, and the turn ends after two stage calls, the second raising;
  \<open>highlight_matching_chunks\<close> is never called and the question stays unanswered in the
  history.
\<close>

theorem generator_failure_ends_turn_early:
  "document_loaded (session loaded_run)
   \<and> filter is_stage_call
       (new_events loaded_run (create_chat_interface offline_tools (Some ''why?'') loaded_run))
     = [Call_retrieve_relevant_chunks ''why?''
          [\<lparr>chunk_source = ''report.pdf'', chunk_text = ''why?''\<rparr>],
        Raise_generate_response_func ''why?''
          [\<lparr>chunk_source = ''report.pdf'', chunk_text = ''why?''\<rparr>]
          (Exn ''GenerationError'')]
   \<and> messages (session (create_chat_interface offline_tools (Some ''why?'') loaded_run))
     = [\<lparr>role = ''user'', content = ''why?'', highlighted_chunks = None\<rparr>]
   \<and> uncaught (create_chat_interface offline_tools (Some ''why?'') loaded_run)
     = Some (Exn ''GenerationError'')"
  by (simp add: chat_unfold offline_tools_def demo_tools_def loaded_run_def)

text \<open>
  C6. \<open>create_chat_interface\<close> only appends to \<open>st.session_state.messages\<close>: the messages
  after the run are the messages before it followed by new ones. Every new message has
  the role \<open>user\<close> or \<open>assistant\<close> (and, by its type, a content string), and every new
  assistant message has the key \<open>highlighted_chunks\<close>.
\<close>

theorem messages_append_only:
  "\<exists>new. messages (session (create_chat_interface tools chat_input r))
            = messages (session r) @ new
         \<and> (\<forall>m \<in> set new. (role m = ''user'' \<or> role m = ''assistant'')
               \<and> (role m = ''assistant'' \<longrightarrow> highlighted_chunks m \<noteq> None))"
  by (simp add: chat_unfold split: option.split sum.split)

text \<open>
  Two questions in a row about the loaded \<open>report.pdf\<close>: the second run keeps the two
  messages of the first and appends its own two.
\<close>

theorem messages_append_only_witness:
  "\<exists>new. messages (session (create_chat_interface demo_tools (Some ''and then?'')
                               (create_chat_interface demo_tools (Some ''why?'') loaded_run)))
          = [\<lparr>role = ''user'', content = ''why?'', highlighted_chunks = None\<rparr>,
             \<lparr>role = ''assistant'', content = ''answer to why?'',
               highlighted_chunks =
                 Some [\<lparr>chunk_source = ''report.pdf'', chunk_text = ''why?''\<rparr>]\<rparr>] @ new
        \<and> list_all (\<lambda>m. role m = ''user'' \<or> role m = ''assistant'') new
        \<and> new \<noteq> []"
proof -
  have m: "messages (session (create_chat_interface demo_tools (Some ''why?'') loaded_run))
          = [\<lparr>role = ''user'', content = ''why?'', highlighted_chunks = None\<rparr>,
             \<lparr>role = ''assistant'', content = ''answer to why?'',
               highlighted_chunks =
                 Some [\<lparr>chunk_source = ''report.pdf'', chunk_text = ''why?''\<rparr>]\<rparr>]"
    by (simp add: chat_unfold demo_tools_def loaded_run_def)
  have n: "length (messages (session (create_chat_interface demo_tools (Some ''and then?'')
                      (create_chat_interface demo_tools (Some ''why?'') loaded_run)))) = 4"
    by (simp add: chat_unfold demo_tools_def loaded_run_def)
  from messages_append_only [of demo_tools "Some ''and then?''"
         "create_chat_interface demo_tools (Some ''why?'') loaded_run"]
  obtain new where
    a: "messages (session (create_chat_interface demo_tools (Some ''and then?'')
                    (create_chat_interface demo_tools (Some ''why?'') loaded_run)))
          = messages (session (create_chat_interface demo_tools (Some ''why?'') loaded_run))
              @ new"
    and b: "\<forall>m \<in> set new. (role m = ''user'' \<or> role m = ''assistant'')
               \<and> (role m = ''assistant'' \<longrightarrow> highlighted_chunks m \<noteq> None)"
    by blast
  from a n m have "new \<noteq> []" by auto
  moreover from b have "list_all (\<lambda>m. role m = ''user'' \<or> role m = ''assistant'') new"
    by (simp add: list_all_iff)
  ultimately show ?thesis using a m by auto
qed

text \<open>
  C10. When \<open>document_loaded\<close> is \<open>False\<close>, a run of \<open>create_chat_interface\<close> leaves the
  whole session state, \<open>messages\<close> included, as it was, whatever the input. When a
  question was submitted, the run renders the header and the history as on every run,
  and after the input box only the warning, in an assistant chat message.
\<close>

theorem unloaded_question_leaves_messages:
  assumes "\<not> document_loaded (session r)"
  shows "session (create_chat_interface tools chat_input r) = session r
         \<and> (user_query \<noteq> [] \<longrightarrow>
              new_events r (create_chat_interface tools (Some user_query) r)
              = St_header Txt_ask_questions
                  # concat (map render_message (messages (session r)))
                  @ [St_chat_input, St_chat_message ''assistant'',
                     St_markdown Txt_upload_first])"
proof -
  have "session (create_chat_interface tools chat_input r) = session r"
  proof (cases "chat_input = None \<or> chat_input = Some []")
    case True
    then show ?thesis by (simp add: chat_without_question)
  next
    case False
    then obtain q where "chat_input = Some q" and "q \<noteq> []" by auto
    with assms show ?thesis by (simp add: chat_unloaded)
  qed
  with assms show ?thesis by (simp add: chat_unloaded new_events_def)
qed

text \<open>A question in a fresh session.\<close>

theorem unloaded_question_leaves_messages_witness:
  "messages (session (create_chat_interface demo_tools (Some ''why?'') fresh_run)) = []
   \<and> new_events fresh_run (create_chat_interface demo_tools (Some ''why?'') fresh_run)
     = [St_header Txt_ask_questions, St_chat_input, St_chat_message ''assistant'',
        St_markdown Txt_upload_first]"
proof -
  have u: "\<not> document_loaded (session fresh_run)" by (simp add: fresh_run_def)
  have q: "''why?'' \<noteq> []" by simp
  from unloaded_question_leaves_messages
         [OF u, of demo_tools "Some ''why?''" "''why?''"] q
  show ?thesis by (simp add: fresh_run_def)
qed

end
